theory Spec2Isabelle
  imports Complex_Main "HOL-Library.Product_Lexorder" "HOL-Library.Multiset"
    "HOL-Library.Char_ord" "HOL-Library.List_Lexorder"
begin

section \<open>Numbers, errors and the data model (models/types.ts)\<close>

text \<open>
  The TypeScript sources compute with \<open>number\<close> (settlement, budgets) and with
  \<open>Decimal\<close> (clearing). Both are modelled by exact rationals: the binary rounding of
  \<open>number\<close> and the 28-significant-digit rounding of \<open>Decimal\<close> are not part of the
  model, the explicit rounding \<open>toDecimalPlaces(8, ROUND_HALF_EVEN)\<close> is.
  Indices (stage, period, absolute period) are naturals; \<open>num_periods\<close> and
  \<open>max_bids_per_period\<close> are integers, so that a non-positive value can be written.
  Agent identifiers are an arbitrary linearly ordered type: its order stands for
  \<open>String.localeCompare\<close>, the only order the sources use on identifiers.
\<close>

type_synonym num = rat

datatype error =
    DuplicateBotId
  | BotNotFound
  | CannotAfford
  | NotImplemented
  | TypeError

datatype ClearingStrategyType = vickrey | uniform_price | discriminatory | dutch | sealed_first

datatype TournamentPhase = not_started | stage_active | stage_transition | completed

record StageConfig =
  sc_base_token_supply :: num
  sc_points_per_token :: num
  sc_floor_price :: num
  sc_num_periods :: int
  sc_period_duration_seconds :: num
  sc_max_bids_per_period :: int
  sc_clearing_strategy :: ClearingStrategyType

record TournamentConfig =
  cfg_name :: string
  budget_per_bot :: num
  stages :: "StageConfig list"
  sp_awards :: "num list"
  overall_bonus_sp :: num

record TokenHolding =
  h_stage :: nat
  h_period :: nat
  h_quantity :: num
  h_price_paid_per_token :: num
  h_points_per_token :: num

record PrivateRescindInfo =
  pi_target_stage :: nat
  pi_target_period :: int
  pi_tokens :: num
  pi_reveal_at_absolute_period :: nat

record 'id BotState =
  bs_bot_id :: 'id
  bs_remaining_budget :: num
  bs_holdings :: "TokenHolding list"
  bs_weighted_points :: num
  bs_tokens_per_stage :: "num list"
  bs_sp :: num
  bs_private_info :: "PrivateRescindInfo list"

record PeriodContext =
  ctx_stage :: nat
  ctx_period :: nat
  ctx_absolute_period :: nat
  ctx_tokens_available :: num
  ctx_floor_price :: num
  ctx_points_per_token :: num

record 'id Bid =
  bid_id :: string
  bid_bot_id :: 'id
  bid_stage :: nat
  bid_period :: nat
  bid_price_per_token :: num
  bid_total_cost :: num
  bid_submitted_at :: int

record 'id PeriodAllocation =
  al_bot_id :: 'id
  al_tokens_allocated :: num
  al_price_paid_per_token :: num
  al_total_paid :: num

text \<open>\<open>rescinded: boolean | null\<close> is \<open>bool option\<close>, \<open>None\<close> for \<open>null\<close> (unset).\<close>

record 'id PeriodResult =
  pr_stage :: nat
  pr_period :: nat
  pr_absolute_period :: nat
  pr_tokens_available :: num
  pr_floor_price :: num
  pr_points_per_token :: num
  pr_clearing_price :: num
  pr_allocations :: "'id PeriodAllocation list"
  pr_rescinded :: "bool option"
  pr_winner_bot_id :: "'id option"
  pr_bids_submitted :: "'id Bid list"
  pr_strategy_used :: ClearingStrategyType

record 'id PendingRescind =
  pd_bot_id :: 'id
  pd_source_stage :: nat
  pd_source_period :: nat
  pd_tokens :: num
  pd_price_refunded_per_token :: num
  pd_total_refunded :: num
  pd_rescinded_at_absolute :: nat
  pd_reveal_at_absolute :: nat

text \<open>
  The \<open>source_description\<close> of a supply entry is a template string over the stage, the
  period and the agent; the model keeps the three values it is built from.
\<close>

record 'id RescindSupplyEntry =
  se_target_absolute_period :: nat
  se_tokens :: num
  se_source_description :: "nat \<times> nat \<times> 'id"

datatype 'id meta_value = MNum num | MStr string | MBot 'id

record 'id PeriodClearingResult =
  cr_clearing_price :: num
  cr_allocations :: "'id PeriodAllocation list"
  cr_total_tokens_allocated :: num
  cr_metadata :: "(string \<times> 'id meta_value) list"

record 'id LeaderboardEntry =
  lb_bot_id :: 'id
  lb_tokens_per_stage :: "num list"
  lb_weighted_points :: num
  lb_sp :: num

record 'id BotObservation =
  obs_stage :: nat
  obs_period :: nat
  obs_absolute_period :: nat
  obs_periods_remaining_in_stage :: int
  obs_stages_remaining :: int
  obs_remaining_budget :: num
  obs_holdings :: "TokenHolding list"
  obs_weighted_points :: num
  obs_tokens_per_stage :: "num list"
  obs_sp :: num
  obs_tokens_available :: num
  obs_floor_price :: num
  obs_points_per_token :: num
  obs_history :: "'id PeriodResult list"
  obs_leaderboard :: "'id LeaderboardEntry list"
  obs_private_rescind_info :: "PrivateRescindInfo list"

text \<open>
  An agent: its identifier and its two decisions. A decision that throws is \<open>Inl\<close>.
  \<open>decideBids\<close> returns the offered prices per token, in offer order. An agent object
  may carry state of its own; since each decision receives the position of the period
  in its observation, a function of the observation describes every behaviour of an
  agent within one run.
\<close>

record 'id BotAgent =
  ag_bot_id :: 'id
  decideBids :: "'id BotObservation \<Rightarrow> error + num list"
  decideRescind :: "'id BotObservation \<Rightarrow> 'id PeriodResult \<Rightarrow> error + bool"

text \<open>
  The store's state. \<open>bots\<close> is a \<open>Map\<close> keyed by \<open>bot_id\<close> whose values carry their
  key; the model keeps the values in insertion order, which is the order of
  \<open>Map.keys()\<close> and \<open>Map.values()\<close>.
\<close>

record 'id TournamentState =
  ts_config :: TournamentConfig
  ts_phase :: TournamentPhase
  ts_current_stage :: int
  ts_current_period :: int
  ts_bots :: "'id BotState list"
  ts_period_results :: "'id PeriodResult list"
  ts_pending_rescinds :: "'id PendingRescind list"
  ts_rescind_supply_queue :: "'id RescindSupplyEntry list"

section \<open>Array.prototype.sort with a comparator\<close>

text \<open>
  \<open>sort\<close> is stable; with a comparator that is a total preorder its result is the one
  of any stable sort. \<open>sort_cmp\<close> is the stable insertion sort: an element goes before
  the first one it does not compare greater than.
\<close>

fun insort_cmp :: "('a \<Rightarrow> 'a \<Rightarrow> num) \<Rightarrow> 'a \<Rightarrow> 'a list \<Rightarrow> 'a list" where
  "insort_cmp cmp x [] = [x]"
| "insort_cmp cmp x (y # ys) =
     (if cmp x y \<le> 0 then x # y # ys else y # insort_cmp cmp x ys)"

definition sort_cmp :: "('a \<Rightarrow> 'a \<Rightarrow> num) \<Rightarrow> 'a list \<Rightarrow> 'a list" where
  "sort_cmp cmp xs = foldr (insort_cmp cmp) xs []"

section \<open>Second-price clearing (core/strategies/vickrey.ts)\<close>

definition vickrey_cmp :: "'id Bid \<Rightarrow> 'id Bid \<Rightarrow> num" where
  "vickrey_cmp a b =
     (let priceDiff = bid_price_per_token b - bid_price_per_token a
      in if priceDiff \<noteq> 0 then priceDiff
         else of_int (bid_submitted_at a) - of_int (bid_submitted_at b))"

definition vickrey_clear ::
  "'id Bid list \<Rightarrow> num \<Rightarrow> num \<Rightarrow> error + 'id PeriodClearingResult" where
  "vickrey_clear bids supply floorPrice =
     (let validBids = filter (\<lambda>b. floorPrice \<le> bid_price_per_token b) bids
      in if length validBids = 0 then
           Inr \<lparr> cr_clearing_price = floorPrice, cr_allocations = [],
                 cr_total_tokens_allocated = 0,
                 cr_metadata = [(''num_bids'', MNum (of_nat (length bids))),
                                (''num_valid_bids'', MNum 0),
                                (''reason'', MStr ''no_valid_bids'')] \<rparr>
         else
           (case sort_cmp vickrey_cmp validBids of
              [] \<Rightarrow> Inl TypeError
            | winner # rest \<Rightarrow>
               (let winnerPrice = bid_price_per_token winner;
                    paymentPrice0 = (case rest of [] \<Rightarrow> floorPrice
                                     | second # _ \<Rightarrow> bid_price_per_token second);
                    paymentPrice = (if paymentPrice0 < floorPrice then floorPrice
                                    else paymentPrice0);
                    totalCost = paymentPrice * supply;
                    allocation = \<lparr> al_bot_id = bid_bot_id winner,
                                   al_tokens_allocated = supply,
                                   al_price_paid_per_token = paymentPrice,
                                   al_total_paid = totalCost \<rparr>
                in Inr \<lparr> cr_clearing_price = paymentPrice, cr_allocations = [allocation],
                         cr_total_tokens_allocated = supply,
                         cr_metadata =
                           [(''num_bids'', MNum (of_nat (length bids))),
                            (''num_valid_bids'', MNum (of_nat (length validBids))),
                            (''highest_bid'', MNum winnerPrice),
                            (''second_highest_bid'', MNum paymentPrice),
                            (''winner_bot_id'', MBot (bid_bot_id winner)),
                            (''winner_surplus'', MNum (winnerPrice - paymentPrice))] \<rparr>)))"

section \<open>Uniform-price clearing (core/strategies/uniformPrice.ts)\<close>

text \<open>
  \<open>Decimal.toDecimalPlaces(8, ROUND_HALF_EVEN)\<close>: the nearest multiple of \<open>10\<^sup>-\<^sup>8\<close>, a tie
  going to the even one.
\<close>

definition round_half_even :: "rat \<Rightarrow> int" where
  "round_half_even x =
     (let f = \<lfloor>x\<rfloor>; d = x - of_int f
      in if d < 1 / 2 then f else if 1 / 2 < d then f + 1
         else if even f then f else f + 1)"

definition toDecimalPlaces8 :: "num \<Rightarrow> num" where
  "toDecimalPlaces8 x = of_int (round_half_even (x * 100000000)) / 100000000"

text \<open>
  A demand entry: the bid, its price and the quantity \<open>total_cost / price_per_token\<close>.
  A zero price makes the quantity \<open>Infinity\<close> in the source and \<open>0\<close> here; the engine
  admits positive prices only.
\<close>

record 'id DemandEntry =
  de_bid :: "'id Bid"
  de_price :: num
  de_quantity :: num

definition uniform_cmp :: "'id DemandEntry \<Rightarrow> 'id DemandEntry \<Rightarrow> num" where
  "uniform_cmp a b =
     (let diff = de_price b - de_price a
      in if diff \<noteq> 0 then diff
         else of_int (bid_submitted_at (de_bid a)) - of_int (bid_submitted_at (de_bid b)))"

definition sum_quantity :: "'id DemandEntry list \<Rightarrow> num" where
  "sum_quantity es = foldl (\<lambda>sum e. sum + de_quantity e) 0 es"

text \<open>The loop that finds the marginal bid; \<open>clearingPrice\<close> starts at the floor.\<close>

fun find_clearing :: "num \<Rightarrow> num \<Rightarrow> num \<Rightarrow> 'id DemandEntry list \<Rightarrow> num" where
  "find_clearing supply cumulative clearingPrice [] = clearingPrice"
| "find_clearing supply cumulative clearingPrice (entry # entries) =
     (let cumulative' = cumulative + de_quantity entry
      in if supply \<le> cumulative' then de_price entry
         else find_clearing supply cumulative' clearingPrice entries)"

definition fill_at :: "num \<Rightarrow> 'id DemandEntry \<Rightarrow> num \<Rightarrow> 'id PeriodAllocation" where
  "fill_at price e tokens =
     \<lparr> al_bot_id = bid_bot_id (de_bid e), al_tokens_allocated = tokens,
       al_price_paid_per_token = price, al_total_paid = tokens * price \<rparr>"

text \<open>
  The pro-rata loop over the bids at the clearing price. The last entry
  (\<open>i === atClearing.length - 1\<close>) takes \<open>remaining - proRataAllocated\<close>, the others
  their rounded share; an entry is allocated only when its tokens are positive.
\<close>

fun pro_rata ::
  "num \<Rightarrow> num \<Rightarrow> num \<Rightarrow> num \<Rightarrow> 'id DemandEntry list \<Rightarrow> 'id PeriodAllocation list" where
  "pro_rata remaining totalAtClearing clearingPrice proRataAllocated [] = []"
| "pro_rata remaining totalAtClearing clearingPrice proRataAllocated (entry # entries) =
     (let tokens =
            (if entries = [] then remaining - proRataAllocated
             else toDecimalPlaces8 (remaining * (de_quantity entry / totalAtClearing)))
      in if 0 < tokens then
           fill_at clearingPrice entry tokens
             # pro_rata remaining totalAtClearing clearingPrice (proRataAllocated + tokens) entries
         else pro_rata remaining totalAtClearing clearingPrice proRataAllocated entries)"

definition sum_tokens :: "'id PeriodAllocation list \<Rightarrow> num" where
  "sum_tokens allocs = foldl (\<lambda>sum a. sum + al_tokens_allocated a) 0 allocs"

definition uniform_clear ::
  "'id Bid list \<Rightarrow> num \<Rightarrow> num \<Rightarrow> error + 'id PeriodClearingResult" where
  "uniform_clear bids supply floorPrice =
     (let validBids =
            filter (\<lambda>b. floorPrice \<le> bid_price_per_token b \<and> 0 < bid_total_cost b) bids
      in if length validBids = 0 then
           Inr \<lparr> cr_clearing_price = floorPrice, cr_allocations = [],
                 cr_total_tokens_allocated = 0,
                 cr_metadata = [(''reason'', MStr ''no_valid_bids'')] \<rparr>
         else
           (let entries = sort_cmp uniform_cmp
                  (map (\<lambda>b. \<lparr> de_bid = b, de_price = bid_price_per_token b,
                                de_quantity = bid_total_cost b / bid_price_per_token b \<rparr>)
                       validBids);
                totalDemand = sum_quantity entries
            in if totalDemand \<le> supply then
                 Inr \<lparr> cr_clearing_price = floorPrice,
                       cr_allocations = map (\<lambda>e. fill_at floorPrice e (de_quantity e)) entries,
                       cr_total_tokens_allocated = totalDemand,
                       cr_metadata = [(''reason'', MStr ''under_subscribed''),
                                      (''total_demand'', MNum totalDemand)] \<rparr>
               else
                 (let clearingPrice = find_clearing supply 0 floorPrice entries;
                      aboveClearing = filter (\<lambda>e. clearingPrice < de_price e) entries;
                      atClearing = filter (\<lambda>e. de_price e = clearingPrice) entries;
                      full = map (\<lambda>e. fill_at clearingPrice e (de_quantity e)) aboveClearing;
                      tokensAllocated = sum_quantity aboveClearing;
                      remaining = supply - tokensAllocated;
                      shared =
                        (if 0 < remaining \<and> 0 < length atClearing then
                           pro_rata remaining (sum_quantity atClearing) clearingPrice 0 atClearing
                         else []);
                      allocations = full @ shared
                  in Inr \<lparr> cr_clearing_price = clearingPrice,
                           cr_allocations = allocations,
                           cr_total_tokens_allocated = tokensAllocated + sum_tokens shared,
                           cr_metadata =
                             [(''total_demand'', MNum totalDemand),
                              (''num_winners'', MNum (of_nat (length allocations)))] \<rparr>)))"

section \<open>The registry (core/strategyFactory.ts, core/strategies/placeholders.ts)\<close>

text \<open>The three reserved mechanisms throw from \<open>clear\<close>.\<close>

definition strategy_clear ::
  "ClearingStrategyType \<Rightarrow> 'id Bid list \<Rightarrow> num \<Rightarrow> num \<Rightarrow> error + 'id PeriodClearingResult" where
  "strategy_clear t bids supply floorPrice =
     (case t of
        vickrey \<Rightarrow> vickrey_clear bids supply floorPrice
      | uniform_price \<Rightarrow> uniform_clear bids supply floorPrice
      | discriminatory \<Rightarrow> Inl NotImplemented
      | dutch \<Rightarrow> Inl NotImplemented
      | sealed_first \<Rightarrow> Inl NotImplemented)"

definition isStrategyImplemented :: "ClearingStrategyType \<Rightarrow> bool" where
  "isStrategyImplemented t =
     (case (strategy_clear t ([] :: unit Bid list) 0 0) of Inl _ \<Rightarrow> False | Inr _ \<Rightarrow> True)"

section \<open>The state store (core/store/tournamentStore.ts)\<close>

text \<open>
  A store operation takes the state and returns its result with the state it leaves
  behind; an operation that throws returns \<open>Inl\<close> with the state at the throw.
\<close>

definition new_TournamentStore :: "TournamentConfig \<Rightarrow> 'id list \<Rightarrow> 'id TournamentState" where
  "new_TournamentStore config botIds =
     (let tokensPerStage = replicate (length (stages config)) 0
      in \<lparr> ts_config = config, ts_phase = not_started,
           ts_current_stage = -1, ts_current_period = -1,
           ts_bots = map (\<lambda>i. \<lparr> bs_bot_id = i, bs_remaining_budget = budget_per_bot config,
                                   bs_holdings = [], bs_weighted_points = 0,
                                   bs_tokens_per_stage = tokensPerStage, bs_sp = 0,
                                   bs_private_info = [] \<rparr>) botIds,
           ts_period_results = [], ts_pending_rescinds = [],
           ts_rescind_supply_queue = [] \<rparr>)"

definition getBot :: "'id TournamentState \<Rightarrow> 'id \<Rightarrow> 'id BotState option" where
  "getBot st botId = find (\<lambda>b. bs_bot_id b = botId) (ts_bots st)"

definition getAllBots :: "'id TournamentState \<Rightarrow> 'id BotState list" where
  "getAllBots st = ts_bots st"

definition getBotIds :: "'id TournamentState \<Rightarrow> 'id list" where
  "getBotIds st = map bs_bot_id (ts_bots st)"

text \<open>A mutation of the bot object stored under an identifier.\<close>

fun update_bot :: "'id \<Rightarrow> ('id BotState \<Rightarrow> 'id BotState) \<Rightarrow> 'id BotState list \<Rightarrow> 'id BotState list" where
  "update_bot botId f [] = []"
| "update_bot botId f (b # bs) =
     (if bs_bot_id b = botId then f b # bs else b # update_bot botId f bs)"

definition setPhase :: "TournamentPhase \<Rightarrow> 'id TournamentState \<Rightarrow> 'id TournamentState" where
  "setPhase ph st = st\<lparr> ts_phase := ph \<rparr>"

definition setCurrentStage :: "nat \<Rightarrow> 'id TournamentState \<Rightarrow> 'id TournamentState" where
  "setCurrentStage s st = st\<lparr> ts_current_stage := int s \<rparr>"

definition setCurrentPeriod :: "nat \<Rightarrow> 'id TournamentState \<Rightarrow> 'id TournamentState" where
  "setCurrentPeriod p st = st\<lparr> ts_current_period := int p \<rparr>"

definition deductBudget ::
  "'id \<Rightarrow> num \<Rightarrow> 'id TournamentState \<Rightarrow> (error + unit) \<times> 'id TournamentState" where
  "deductBudget botId amount st =
     (case getBot st botId of
        None \<Rightarrow> (Inl BotNotFound, st)
      | Some botSt \<Rightarrow>
          if bs_remaining_budget botSt < amount then (Inl CannotAfford, st)
          else (Inr (),
                st\<lparr> ts_bots := update_bot botId
                       (\<lambda>b. b\<lparr> bs_remaining_budget := bs_remaining_budget b - amount \<rparr>)
                       (ts_bots st) \<rparr>))"

definition refundBudget ::
  "'id \<Rightarrow> num \<Rightarrow> 'id TournamentState \<Rightarrow> (error + unit) \<times> 'id TournamentState" where
  "refundBudget botId amount st =
     (case getBot st botId of
        None \<Rightarrow> (Inl BotNotFound, st)
      | Some botSt \<Rightarrow>
          (Inr (),
           st\<lparr> ts_bots := update_bot botId
                  (\<lambda>b. b\<lparr> bs_remaining_budget := bs_remaining_budget b + amount \<rparr>)
                  (ts_bots st) \<rparr>))"

text \<open>
  \<open>tokens_per_stage[holding.stage] += holding.quantity\<close>: the engine only adds holdings of
  a stage of the configuration, which is an index of the array. Beyond the array the
  source would store \<open>NaN\<close>; the model leaves the array as it is there.
\<close>

definition addHolding ::
  "'id \<Rightarrow> TokenHolding \<Rightarrow> 'id TournamentState \<Rightarrow> (error + unit) \<times> 'id TournamentState" where
  "addHolding botId holding st =
     (case getBot st botId of
        None \<Rightarrow> (Inl BotNotFound, st)
      | Some botSt \<Rightarrow>
          (Inr (),
           st\<lparr> ts_bots := update_bot botId
                  (\<lambda>b. b\<lparr> bs_holdings := bs_holdings b @ [holding],
                          bs_tokens_per_stage :=
                            (bs_tokens_per_stage b)
                              [h_stage holding :=
                                 bs_tokens_per_stage b ! h_stage holding + h_quantity holding],
                          bs_weighted_points :=
                            bs_weighted_points b + h_quantity holding * h_points_per_token holding \<rparr>)
                  (ts_bots st) \<rparr>))"

text \<open>\<open>findIndex\<close> and \<open>splice(idx, 1)\<close>: the first holding of the stage and period.\<close>

fun find_holding :: "nat \<Rightarrow> nat \<Rightarrow> TokenHolding list \<Rightarrow> TokenHolding option" where
  "find_holding s p [] = None"
| "find_holding s p (h # hs) =
     (if h_stage h = s \<and> h_period h = p then Some h else find_holding s p hs)"

fun splice_holding :: "nat \<Rightarrow> nat \<Rightarrow> TokenHolding list \<Rightarrow> TokenHolding list" where
  "splice_holding s p [] = []"
| "splice_holding s p (h # hs) =
     (if h_stage h = s \<and> h_period h = p then hs else h # splice_holding s p hs)"

definition removeHolding ::
  "'id \<Rightarrow> nat \<Rightarrow> nat \<Rightarrow> 'id TournamentState \<Rightarrow> TokenHolding option \<times> 'id TournamentState" where
  "removeHolding botId s p st =
     (case getBot st botId of
        None \<Rightarrow> (None, st)
      | Some botSt \<Rightarrow>
          (case find_holding s p (bs_holdings botSt) of
             None \<Rightarrow> (None, st)
           | Some removed \<Rightarrow>
               (Some removed,
                st\<lparr> ts_bots := update_bot botId
                       (\<lambda>b. b\<lparr> bs_holdings := splice_holding s p (bs_holdings b),
                               bs_tokens_per_stage :=
                                 (bs_tokens_per_stage b)
                                   [h_stage removed :=
                                      bs_tokens_per_stage b ! h_stage removed - h_quantity removed],
                               bs_weighted_points :=
                                 bs_weighted_points b
                                   - h_quantity removed * h_points_per_token removed \<rparr>)
                       (ts_bots st) \<rparr>)))"

definition addPeriodResult :: "'id PeriodResult \<Rightarrow> 'id TournamentState \<Rightarrow> 'id TournamentState" where
  "addPeriodResult r st = st\<lparr> ts_period_results := ts_period_results st @ [r] \<rparr>"

definition getPeriodResults :: "'id TournamentState \<Rightarrow> 'id PeriodResult list" where
  "getPeriodResults st = ts_period_results st"

definition getPeriodResult :: "'id TournamentState \<Rightarrow> nat \<Rightarrow> nat \<Rightarrow> 'id PeriodResult option" where
  "getPeriodResult st s p = find (\<lambda>r. pr_stage r = s \<and> pr_period r = p) (ts_period_results st)"

definition addPendingRescind :: "'id PendingRescind \<Rightarrow> 'id TournamentState \<Rightarrow> 'id TournamentState" where
  "addPendingRescind r st = st\<lparr> ts_pending_rescinds := ts_pending_rescinds st @ [r] \<rparr>"

definition revealRescinds ::
  "nat \<Rightarrow> 'id TournamentState \<Rightarrow> 'id PendingRescind list \<times> 'id TournamentState" where
  "revealRescinds atAbsolutePeriod st =
     (let toReveal = filter (\<lambda>r. pd_reveal_at_absolute r \<le> atAbsolutePeriod)
                       (ts_pending_rescinds st)
      in (toReveal,
          st\<lparr> ts_pending_rescinds :=
                 filter (\<lambda>r. atAbsolutePeriod < pd_reveal_at_absolute r)
                   (ts_pending_rescinds st) \<rparr>))"

definition getPendingRescinds :: "'id TournamentState \<Rightarrow> 'id PendingRescind list" where
  "getPendingRescinds st = ts_pending_rescinds st"

definition addRescindSupply :: "'id RescindSupplyEntry \<Rightarrow> 'id TournamentState \<Rightarrow> 'id TournamentState" where
  "addRescindSupply e st = st\<lparr> ts_rescind_supply_queue := ts_rescind_supply_queue st @ [e] \<rparr>"

definition getRescindSupplyForPeriod :: "'id TournamentState \<Rightarrow> nat \<Rightarrow> num" where
  "getRescindSupplyForPeriod st absolutePeriod =
     foldl (\<lambda>sum e. sum + se_tokens e) 0
       (filter (\<lambda>e. se_target_absolute_period e = absolutePeriod) (ts_rescind_supply_queue st))"

definition awardSP ::
  "'id \<Rightarrow> num \<Rightarrow> 'id TournamentState \<Rightarrow> (error + unit) \<times> 'id TournamentState" where
  "awardSP botId points st =
     (case getBot st botId of
        None \<Rightarrow> (Inl BotNotFound, st)
      | Some botSt \<Rightarrow>
          (Inr (),
           st\<lparr> ts_bots := update_bot botId (\<lambda>b. b\<lparr> bs_sp := bs_sp b + points \<rparr>) (ts_bots st) \<rparr>))"

text \<open>
  The rankings. \<open>tokens_per_stage[stage] ?? 0\<close> reads \<open>0\<close> beyond the array. The
  comparators return the difference of the tokens (or points) when they differ and
  \<open>a.bot_id.localeCompare(b.bot_id)\<close> otherwise, which is negative, zero or positive as
  the order of the identifiers says.
\<close>

definition localeCompare :: "'id::linorder \<Rightarrow> 'id \<Rightarrow> num" where
  "localeCompare a b = (if a < b then -1 else if a = b then 0 else 1)"

definition tokens_in_stage :: "'id BotState \<Rightarrow> nat \<Rightarrow> num" where
  "tokens_in_stage b s =
     (if s < length (bs_tokens_per_stage b) then bs_tokens_per_stage b ! s else 0)"

definition ranking_cmp :: "('id::linorder) \<times> num \<Rightarrow> 'id \<times> num \<Rightarrow> num" where
  "ranking_cmp a b = (if snd b \<noteq> snd a then snd b - snd a else localeCompare (fst a) (fst b))"

definition getStageRanking :: "('id::linorder) TournamentState \<Rightarrow> nat \<Rightarrow> ('id \<times> num) list" where
  "getStageRanking st s =
     sort_cmp ranking_cmp
       (filter (\<lambda>e. 0 < snd e)
          (map (\<lambda>b. (bs_bot_id b, tokens_in_stage b s)) (getAllBots st)))"

definition getOverallRanking :: "('id::linorder) TournamentState \<Rightarrow> ('id \<times> num) list" where
  "getOverallRanking st =
     sort_cmp ranking_cmp (map (\<lambda>b. (bs_bot_id b, bs_weighted_points b)) (getAllBots st))"

section \<open>Identifiers and the clock (models/types.ts)\<close>

text \<open>
  \<open>generateId\<close> reads the module's counter \<open>_idCounter\<close> and \<open>Date.now()\<close>;
  \<open>new Date()\<close> reads the clock again. The world outside the store is the counter and
  the number of clock readings made so far; \<open>clock k\<close> is the \<open>k\<close>-th reading, in
  milliseconds since the epoch.
\<close>

record 'id World =
  w_store :: "'id TournamentState"
  w_idCounter :: nat
  w_clockReads :: nat

definition digit36 :: "nat \<Rightarrow> char" where
  "digit36 d = ''0123456789abcdefghijklmnopqrstuvwxyz'' ! d"

text \<open>\<open>Number.prototype.toString(36)\<close> on an integer.\<close>

function digits36 :: "int \<Rightarrow> string" where
  "digits36 n =
     (if n < 36 then [digit36 (nat n)] else digits36 (n div 36) @ [digit36 (nat (n mod 36))])"
  by pat_completeness auto
termination
  by (relation "measure nat") auto

declare digits36.simps [simp del]

definition toString36 :: "int \<Rightarrow> string" where
  "toString36 n = (if n < 0 then CHR ''-'' # digits36 (- n) else digits36 n)"

definition padStart4 :: "string \<Rightarrow> string" where
  "padStart4 s = replicate (4 - length s) (CHR ''0'') @ s"

definition generateId :: "(nat \<Rightarrow> int) \<Rightarrow> string \<Rightarrow> 'id World \<Rightarrow> string \<times> 'id World" where
  "generateId clock prefix w =
     (let idCounter = w_idCounter w + 1;
          ts = toString36 (clock (w_clockReads w));
          count = padStart4 (toString36 (int idCounter));
          w' = w\<lparr> w_idCounter := idCounter, w_clockReads := w_clockReads w + 1 \<rparr>
      in (if prefix \<noteq> [] then prefix @ ''_'' @ ts @ count else ts @ count, w'))"

definition resetIdCounter :: "'id World \<Rightarrow> 'id World" where
  "resetIdCounter w = w\<lparr> w_idCounter := 0 \<rparr>"

definition newDate :: "(nat \<Rightarrow> int) \<Rightarrow> 'id World \<Rightarrow> int \<times> 'id World" where
  "newDate clock w = (clock (w_clockReads w), w\<lparr> w_clockReads := w_clockReads w + 1 \<rparr>)"

section \<open>The engine (core/engine.ts)\<close>

record 'id TournamentEngine =
  eng_config :: TournamentConfig
  eng_bots :: "'id BotAgent list"

text \<open>The constructor: a repeated identifier throws; nothing else is checked.\<close>

fun register_agents :: "'id BotAgent list \<Rightarrow> 'id BotAgent list \<Rightarrow> error + 'id BotAgent list" where
  "register_agents registered [] = Inr registered"
| "register_agents registered (agent # agents) =
     (if ag_bot_id agent \<in> set (map ag_bot_id registered) then Inl DuplicateBotId
      else register_agents (registered @ [agent]) agents)"

definition new_TournamentEngine ::
  "TournamentConfig \<Rightarrow> 'id BotAgent list \<Rightarrow> error + 'id TournamentEngine \<times> 'id TournamentState" where
  "new_TournamentEngine config agents =
     (case register_agents [] agents of
        Inl e \<Rightarrow> Inl e
      | Inr registered \<Rightarrow>
          Inr (\<lparr> eng_config = config, eng_bots = registered \<rparr>,
               new_TournamentStore config (map ag_bot_id registered)))"

definition RESCIND_REVEAL_DELAY :: nat where
  "RESCIND_REVEAL_DELAY = 2"

text \<open>
  \<open>absoluteToStagePeriod\<close>. Beyond the last stage it answers the last period of the last
  stage; with no stage at all the read of \<open>stages[-1].num_periods\<close> is a TypeError.
\<close>

fun absoluteToStagePeriod_loop :: "StageConfig list \<Rightarrow> nat \<Rightarrow> int \<Rightarrow> (nat \<times> int) option" where
  "absoluteToStagePeriod_loop [] s remaining = None"
| "absoluteToStagePeriod_loop (sc # scs) s remaining =
     (if remaining < sc_num_periods sc then Some (s, remaining)
      else absoluteToStagePeriod_loop scs (s + 1) (remaining - sc_num_periods sc))"

definition absoluteToStagePeriod :: "TournamentConfig \<Rightarrow> nat \<Rightarrow> error + nat \<times> int" where
  "absoluteToStagePeriod config absolutePeriod =
     (case absoluteToStagePeriod_loop (stages config) 0 (int absolutePeriod) of
        Some sp \<Rightarrow> Inr sp
      | None \<Rightarrow>
          (if stages config = [] then Inl TypeError
           else Inr (length (stages config) - 1, sc_num_periods (last (stages config)) - 1)))"

definition processRescind ::
  "TournamentConfig \<Rightarrow> 'id \<Rightarrow> PeriodContext \<Rightarrow> 'id PeriodAllocation \<Rightarrow> nat
     \<Rightarrow> 'id TournamentState \<Rightarrow> (error + unit) \<times> 'id TournamentState" where
  "processRescind config botId context allocation absolutePeriod st =
     (let (removed, st1) = removeHolding botId (ctx_stage context) (ctx_period context) st
      in case refundBudget botId (al_total_paid allocation) st1 of
           (Inl e, st2) \<Rightarrow> (Inl e, st2)
         | (Inr u, st2) \<Rightarrow>
             (let targetAbsolute = absolutePeriod + RESCIND_REVEAL_DELAY;
                  pendingRescind =
                    \<lparr> pd_bot_id = botId, pd_source_stage = ctx_stage context,
                      pd_source_period = ctx_period context,
                      pd_tokens = al_tokens_allocated allocation,
                      pd_price_refunded_per_token = al_price_paid_per_token allocation,
                      pd_total_refunded = al_total_paid allocation,
                      pd_rescinded_at_absolute = absolutePeriod,
                      pd_reveal_at_absolute = targetAbsolute \<rparr>;
                  st3 = addPendingRescind pendingRescind st2;
                  supplyEntry =
                    \<lparr> se_target_absolute_period = targetAbsolute,
                      se_tokens = al_tokens_allocated allocation,
                      se_source_description = (ctx_stage context, ctx_period context, botId) \<rparr>;
                  st4 = addRescindSupply supplyEntry st3
              in case getBot st4 botId of
                   None \<Rightarrow> (Inr (), st4)
                 | Some botSt \<Rightarrow>
                     (case absoluteToStagePeriod config targetAbsolute of
                        Inl e \<Rightarrow> (Inl e, st4)
                      | Inr (targetStage, targetPeriod) \<Rightarrow>
                          (Inr (),
                           st4\<lparr> ts_bots := update_bot botId
                                  (\<lambda>b. b\<lparr> bs_private_info := bs_private_info b @
                                           [\<lparr> pi_target_stage = targetStage,
                                              pi_target_period = targetPeriod,
                                              pi_tokens = al_tokens_allocated allocation,
                                              pi_reveal_at_absolute_period = targetAbsolute \<rparr>] \<rparr>)
                                  (ts_bots st4) \<rparr>))))"

text \<open>\<open>result.rescinded = true\<close> on the record \<open>getPeriodResult\<close> finds: the first of the stage and period.\<close>

fun mark_rescinded :: "nat \<Rightarrow> nat \<Rightarrow> 'id PeriodResult list \<Rightarrow> 'id PeriodResult list" where
  "mark_rescinded s p [] = []"
| "mark_rescinded s p (r # rs) =
     (if pr_stage r = s \<and> pr_period r = p then r\<lparr> pr_rescinded := Some True \<rparr> # rs
      else r # mark_rescinded s p rs)"

fun processRescindRevelations ::
  "'id PendingRescind list \<Rightarrow> nat \<Rightarrow> 'id TournamentState \<Rightarrow> 'id TournamentState" where
  "processRescindRevelations [] currentAbsolute st = st"
| "processRescindRevelations (rescind # revealed) currentAbsolute st =
     (let st1 = st\<lparr> ts_period_results :=
                     mark_rescinded (pd_source_stage rescind) (pd_source_period rescind)
                       (ts_period_results st) \<rparr>;
          st2 = st1\<lparr> ts_bots := update_bot (pd_bot_id rescind)
                   (\<lambda>b. b\<lparr> bs_private_info :=
                            filter (\<lambda>info. pi_reveal_at_absolute_period info
                                              \<noteq> pd_reveal_at_absolute rescind)
                              (bs_private_info b) \<rparr>)
                   (ts_bots st1) \<rparr>
      in processRescindRevelations revealed currentAbsolute st2)"

definition buildObservation ::
  "TournamentConfig \<Rightarrow> 'id TournamentState \<Rightarrow> 'id \<Rightarrow> PeriodContext \<Rightarrow> error + 'id BotObservation" where
  "buildObservation config st botId context =
     (case getBot st botId of
        None \<Rightarrow> Inl TypeError
      | Some botSt \<Rightarrow>
          if length (stages config) \<le> ctx_stage context then Inl TypeError
          else
            (let stageConfig = stages config ! ctx_stage context;
                 leaderboard =
                   map (\<lambda>b. \<lparr> lb_bot_id = bs_bot_id b,
                               lb_tokens_per_stage = bs_tokens_per_stage b,
                               lb_weighted_points = bs_weighted_points b,
                               lb_sp = bs_sp b \<rparr>) (getAllBots st);
                 publicHistory = map (\<lambda>r. r) (getPeriodResults st)
             in Inr \<lparr> obs_stage = ctx_stage context,
                      obs_period = ctx_period context,
                      obs_absolute_period = ctx_absolute_period context,
                      obs_periods_remaining_in_stage =
                        sc_num_periods stageConfig - int (ctx_period context) - 1,
                      obs_stages_remaining =
                        int (length (stages config)) - int (ctx_stage context) - 1,
                      obs_remaining_budget = bs_remaining_budget botSt,
                      obs_holdings = bs_holdings botSt,
                      obs_weighted_points = bs_weighted_points botSt,
                      obs_tokens_per_stage = bs_tokens_per_stage botSt,
                      obs_sp = bs_sp botSt,
                      obs_tokens_available = ctx_tokens_available context,
                      obs_floor_price = ctx_floor_price context,
                      obs_points_per_token = ctx_points_per_token context,
                      obs_history = publicHistory,
                      obs_leaderboard = leaderboard,
                      obs_private_rescind_info = bs_private_info botSt \<rparr>))"

text \<open>\<open>Array.prototype.slice(0, n)\<close>: a negative \<open>n\<close> counts from the end.\<close>

definition slice0 :: "'a list \<Rightarrow> int \<Rightarrow> 'a list" where
  "slice0 xs n = (if n < 0 then take (nat (int (length xs) + n)) xs else take (nat n) xs)"

text \<open>
  The inner loop of bid collection, over one agent's offers. It runs inside the
  \<open>try\<close>: a missing bot state ends the agent's offers, the bids admitted so far stay.
\<close>

fun admit_bids ::
  "(nat \<Rightarrow> int) \<Rightarrow> 'id \<Rightarrow> PeriodContext \<Rightarrow> num list \<Rightarrow> 'id World \<Rightarrow> 'id Bid list \<times> 'id World" where
  "admit_bids clock botId context [] w = ([], w)"
| "admit_bids clock botId context (price # bidSlice) w =
     (case getBot (w_store w) botId of
        None \<Rightarrow> ([], w)
      | Some botSt \<Rightarrow>
          (let totalCost = price * ctx_tokens_available context
           in if price < ctx_floor_price context then admit_bids clock botId context bidSlice w
              else if bs_remaining_budget botSt < totalCost then
                admit_bids clock botId context bidSlice w
              else if price \<le> 0 then admit_bids clock botId context bidSlice w
              else
                (let (newId, w1) = generateId clock ''bid'' w;
                     (submitted, w2) = newDate clock w1;
                     bid = \<lparr> bid_id = newId, bid_bot_id = botId,
                             bid_stage = ctx_stage context, bid_period = ctx_period context,
                             bid_price_per_token = price, bid_total_cost = totalCost,
                             bid_submitted_at = submitted \<rparr>;
                     (restBids, w3) = admit_bids clock botId context bidSlice w2
                 in (bid # restBids, w3))))"

definition getAgent :: "'id TournamentEngine \<Rightarrow> 'id \<Rightarrow> 'id BotAgent option" where
  "getAgent eng botId = find (\<lambda>a. ag_bot_id a = botId) (eng_bots eng)"

text \<open>
  The outer loop of bid collection. The observation is built outside the \<open>try\<close>; what
  the agent's decision throws is caught and its offers are skipped.
\<close>

fun collect_bids ::
  "(nat \<Rightarrow> int) \<Rightarrow> 'id TournamentEngine \<Rightarrow> PeriodContext \<Rightarrow> int \<Rightarrow> 'id list \<Rightarrow> 'id World
     \<Rightarrow> (error + 'id Bid list) \<times> 'id World" where
  "collect_bids clock eng context maxBidsPerPeriod [] w = (Inr [], w)"
| "collect_bids clock eng context maxBidsPerPeriod (botId # botIds) w =
     (case buildObservation (eng_config eng) (w_store w) botId context of
        Inl e \<Rightarrow> (Inl e, w)
      | Inr observation \<Rightarrow>
          (let (bids, w1) =
                 (case getAgent eng botId of
                    None \<Rightarrow> ([], w)
                  | Some agent \<Rightarrow>
                      (case decideBids agent observation of
                         Inl e \<Rightarrow> ([], w)
                       | Inr offers \<Rightarrow>
                           admit_bids clock botId context (slice0 offers maxBidsPerPeriod) w))
           in case collect_bids clock eng context maxBidsPerPeriod botIds w1 of
                (Inl e, w2) \<Rightarrow> (Inl e, w2)
              | (Inr restBids, w2) \<Rightarrow> (Inr (bids @ restBids), w2)))"

text \<open>Settlement: for each allocation the deduction, then the holding. \<open>n\<close> is \<open>allocations.length\<close>.\<close>

fun apply_allocations ::
  "PeriodContext \<Rightarrow> nat \<Rightarrow> 'id PeriodAllocation list \<Rightarrow> 'id option \<Rightarrow> 'id TournamentState
     \<Rightarrow> (error + 'id option) \<times> 'id TournamentState" where
  "apply_allocations context n [] winnerBotId st = (Inr winnerBotId, st)"
| "apply_allocations context n (alloc # allocs) winnerBotId st =
     (case deductBudget (al_bot_id alloc) (al_total_paid alloc) st of
        (Inl e, st1) \<Rightarrow> (Inl e, st1)
      | (Inr u, st1) \<Rightarrow>
          (let holding = \<lparr> h_stage = ctx_stage context, h_period = ctx_period context,
                           h_quantity = al_tokens_allocated alloc,
                           h_price_paid_per_token = al_price_paid_per_token alloc,
                           h_points_per_token = ctx_points_per_token context \<rparr>
           in case addHolding (al_bot_id alloc) holding st1 of
                (Inl e, st2) \<Rightarrow> (Inl e, st2)
              | (Inr u, st2) \<Rightarrow>
                  apply_allocations context n allocs
                    (if n = 1 then Some (al_bot_id alloc) else winnerBotId) st2))"

text \<open>
  One period. Identifiers are taken to be non-empty strings, so that the winner's
  identifier is truthy in \<open>winnerBotId && rescindAllowed && ...\<close>. The rescind decision
  and \<open>processRescind\<close> run inside a \<open>try\<close>: whatever they throw is caught, the state
  stays as it was at the throw and \<open>rescinded\<close> stays \<open>null\<close>.
\<close>

definition runPeriod ::
  "(nat \<Rightarrow> int) \<Rightarrow> 'id TournamentEngine \<Rightarrow> PeriodContext \<Rightarrow> ClearingStrategyType \<Rightarrow> int \<Rightarrow> bool
     \<Rightarrow> nat \<Rightarrow> 'id World \<Rightarrow> (error + 'id PeriodResult) \<times> 'id World" where
  "runPeriod clock eng context strategyType maxBidsPerPeriod rescindAllowed absolutePeriod w =
     (case collect_bids clock eng context maxBidsPerPeriod (getBotIds (w_store w)) w of
        (Inl e, w1) \<Rightarrow> (Inl e, w1)
      | (Inr allBids, w1) \<Rightarrow>
          (case strategy_clear strategyType allBids
                  (ctx_tokens_available context) (ctx_floor_price context) of
             Inl e \<Rightarrow> (Inl e, w1)
           | Inr clearingResult \<Rightarrow>
               (case apply_allocations context (length (cr_allocations clearingResult))
                       (cr_allocations clearingResult) None (w_store w1) of
                  (Inl e, st2) \<Rightarrow> (Inl e, w1\<lparr> w_store := st2 \<rparr>)
                | (Inr winnerBotId, st2) \<Rightarrow>
                    (let result = (\<lambda>rescinded winnerId.
                            \<lparr> pr_stage = ctx_stage context, pr_period = ctx_period context,
                              pr_absolute_period = absolutePeriod,
                              pr_tokens_available = ctx_tokens_available context,
                              pr_floor_price = ctx_floor_price context,
                              pr_points_per_token = ctx_points_per_token context,
                              pr_clearing_price = cr_clearing_price clearingResult,
                              pr_allocations = cr_allocations clearingResult,
                              pr_rescinded = rescinded,
                              pr_winner_bot_id = winnerId,
                              pr_bids_submitted = allBids,
                              pr_strategy_used = strategyType \<rparr>);
                         w2 = w1\<lparr> w_store := st2 \<rparr>
                     in case (winnerBotId, cr_allocations clearingResult) of
                          (Some winner, [allocation]) \<Rightarrow>
                            if rescindAllowed then
                              (case buildObservation (eng_config eng) st2 winner context of
                                 Inl e \<Rightarrow> (Inl e, w2)
                               | Inr winnerObservation \<Rightarrow>
                                   (case getAgent eng winner of
                                      None \<Rightarrow> (Inr (result None winnerBotId), w2)
                                    | Some agent \<Rightarrow>
                                        (case decideRescind agent winnerObservation
                                                (result None (Some winner)) of
                                           Inl e \<Rightarrow> (Inr (result None winnerBotId), w2)
                                         | Inr rescind \<Rightarrow>
                                             if rescind then
                                               (case processRescind (eng_config eng) winner context
                                                       allocation absolutePeriod st2 of
                                                  (Inl e, st3) \<Rightarrow>
                                                    (Inr (result None winnerBotId),
                                                     w1\<lparr> w_store := st3 \<rparr>)
                                                | (Inr u, st3) \<Rightarrow>
                                                    (Inr (result (Some False) winnerBotId),
                                                     w1\<lparr> w_store := st3 \<rparr>))
                                             else (Inr (result None winnerBotId), w2))))
                            else (Inr (result None winnerBotId), w2)
                        | _ \<Rightarrow> (Inr (result None winnerBotId), w2)))))"

text \<open>The award loop runs over \<open>i < min(ranking.length, spAwards.length)\<close>.\<close>

fun award_loop ::
  "('id \<times> num) list \<Rightarrow> num list \<Rightarrow> 'id TournamentState \<Rightarrow> (error + unit) \<times> 'id TournamentState" where
  "award_loop (r # ranking) (a # spAwards) st =
     (case awardSP (fst r) a st of
        (Inl e, st1) \<Rightarrow> (Inl e, st1)
      | (Inr u, st1) \<Rightarrow> award_loop ranking spAwards st1)"
| "award_loop ranking spAwards st = (Inr (), st)"

definition awardStageSP ::
  "TournamentConfig \<Rightarrow> nat \<Rightarrow> ('id::linorder) TournamentState
     \<Rightarrow> (error + unit) \<times> 'id TournamentState" where
  "awardStageSP config stageIdx st = award_loop (getStageRanking st stageIdx) (sp_awards config) st"

definition awardOverallBonusSP ::
  "TournamentConfig \<Rightarrow> ('id::linorder) TournamentState \<Rightarrow> (error + unit) \<times> 'id TournamentState" where
  "awardOverallBonusSP config st =
     (case getOverallRanking st of
        [] \<Rightarrow> (Inr (), st)
      | leader # others \<Rightarrow>
          if 0 < snd leader then awardSP (fst leader) (overall_bonus_sp config) st else (Inr (), st))"

record 'id BotSummary =
  sm_bot_id :: 'id
  sm_total_sp :: num
  sm_weighted_points :: num
  sm_tokens_per_stage :: "num list"
  sm_budget_spent :: num
  sm_budget_remaining :: num
  sm_periods_won :: nat
  sm_rescinds_made :: nat
  sm_avg_price_paid :: num
  sm_capital_efficiency :: num

text \<open>The result. \<open>winner_bot_id\<close> is \<open>None\<close> for the empty string of an empty leaderboard.\<close>

record 'id TournamentResult =
  res_config :: TournamentConfig
  res_final_leaderboard :: "'id LeaderboardEntry list"
  res_winner_bot_id :: "'id option"
  res_all_period_results :: "'id PeriodResult list"
  res_bot_summaries :: "'id BotSummary list"

definition leaderboard_cmp :: "'id LeaderboardEntry \<Rightarrow> 'id LeaderboardEntry \<Rightarrow> num" where
  "leaderboard_cmp a b =
     (if lb_sp b \<noteq> lb_sp a then lb_sp b - lb_sp a
      else lb_weighted_points b - lb_weighted_points a)"

definition buildResult :: "TournamentConfig \<Rightarrow> 'id TournamentState \<Rightarrow> 'id TournamentResult" where
  "buildResult config st =
     (let allBots = getAllBots st;
          finalLeaderboard =
            sort_cmp leaderboard_cmp
              (map (\<lambda>b. \<lparr> lb_bot_id = bs_bot_id b,
                          lb_tokens_per_stage = bs_tokens_per_stage b,
                          lb_weighted_points = bs_weighted_points b,
                          lb_sp = bs_sp b \<rparr>) allBots);
          summary = (\<lambda>b.
            let budgetSpent = budget_per_bot config - bs_remaining_budget b;
                periodsWon = length (filter
                  (\<lambda>r. pr_winner_bot_id r = Some (bs_bot_id b) \<and> pr_rescinded r \<noteq> Some True)
                  (getPeriodResults st));
                rescindsMade = length (filter
                  (\<lambda>r. pr_winner_bot_id r = Some (bs_bot_id b) \<and> pr_rescinded r = Some True)
                  (getPeriodResults st));
                totalTokens = foldl (\<lambda>s h. s + h_quantity h) 0 (bs_holdings b);
                totalPaid = foldl (\<lambda>s h. s + h_quantity h * h_price_paid_per_token h) 0
                              (bs_holdings b);
                avgPrice = (if 0 < totalTokens then totalPaid / totalTokens else 0)
            in \<lparr> sm_bot_id = bs_bot_id b, sm_total_sp = bs_sp b,
                 sm_weighted_points = bs_weighted_points b,
                 sm_tokens_per_stage = bs_tokens_per_stage b,
                 sm_budget_spent = budgetSpent,
                 sm_budget_remaining = bs_remaining_budget b,
                 sm_periods_won = periodsWon, sm_rescinds_made = rescindsMade,
                 sm_avg_price_paid = avgPrice,
                 sm_capital_efficiency =
                   (if 0 < budgetSpent then bs_weighted_points b / budgetSpent else 0) \<rparr>)
      in \<lparr> res_config = config,
           res_final_leaderboard = finalLeaderboard,
           res_winner_bot_id =
             (case finalLeaderboard of [] \<Rightarrow> None | e # es \<Rightarrow> Some (lb_bot_id e)),
           res_all_period_results = getPeriodResults st,
           res_bot_summaries = map summary allBots \<rparr>)"

text \<open>
  The loop over the periods of one stage; it returns the absolute period counter.
  Each round reveals the due rescinds, computes the supply, decides whether a rescind
  may be offered, runs the period and appends its record.
\<close>

function period_loop ::
  "(nat \<Rightarrow> int) \<Rightarrow> 'id TournamentEngine \<Rightarrow> nat \<Rightarrow> StageConfig \<Rightarrow> num \<Rightarrow> nat \<Rightarrow> nat \<Rightarrow> 'id World
     \<Rightarrow> (error + nat) \<times> 'id World" where
  "period_loop clock eng stageIdx stageConfig baseSupplyPerPeriod periodIdx absolutePeriod w =
     (if int periodIdx < sc_num_periods stageConfig then
        (let st1 = setCurrentPeriod periodIdx (w_store w);
             (revealedRescinds, st2) = revealRescinds absolutePeriod st1;
             st3 = processRescindRevelations revealedRescinds absolutePeriod st2;
             rescindExtra = getRescindSupplyForPeriod st3 absolutePeriod;
             tokensAvailable = baseSupplyPerPeriod + rescindExtra;
             floorPrice = sc_floor_price stageConfig;
             periodContext =
               \<lparr> ctx_stage = stageIdx, ctx_period = periodIdx,
                 ctx_absolute_period = absolutePeriod,
                 ctx_tokens_available = tokensAvailable,
                 ctx_floor_price = floorPrice,
                 ctx_points_per_token = sc_points_per_token stageConfig \<rparr>;
             isTerminalStage = (int stageIdx = int (length (stages (eng_config eng))) - 1);
             periodsFromEnd = sc_num_periods stageConfig - 1 - int periodIdx;
             rescindAllowed = (\<not> (isTerminalStage \<and> periodsFromEnd < int RESCIND_REVEAL_DELAY))
         in case runPeriod clock eng periodContext (sc_clearing_strategy stageConfig)
                   (sc_max_bids_per_period stageConfig) rescindAllowed absolutePeriod
                   (w\<lparr> w_store := st3 \<rparr>) of
              (Inl e, w1) \<Rightarrow> (Inl e, w1)
            | (Inr periodResult, w1) \<Rightarrow>
                period_loop clock eng stageIdx stageConfig baseSupplyPerPeriod
                  (periodIdx + 1) (absolutePeriod + 1)
                  (w1\<lparr> w_store := addPeriodResult periodResult (w_store w1) \<rparr>))
      else (Inr absolutePeriod, w))"
  by pat_completeness auto
termination
  by (relation "measure (\<lambda>(clock, eng, stageIdx, stageConfig, base, periodIdx, absolutePeriod, w).
        nat (sc_num_periods stageConfig) - periodIdx)") auto

declare period_loop.simps [simp del]

text \<open>The loop over the stages, with the stage award at the end of each.\<close>

function stage_loop ::
  "(nat \<Rightarrow> int) \<Rightarrow> ('id::linorder) TournamentEngine \<Rightarrow> nat \<Rightarrow> nat \<Rightarrow> 'id World
     \<Rightarrow> (error + unit) \<times> 'id World" where
  "stage_loop clock eng stageIdx absolutePeriod w =
     (if stageIdx < length (stages (eng_config eng)) then
        (let stageConfig = stages (eng_config eng) ! stageIdx;
             w0 = w\<lparr> w_store := setCurrentStage stageIdx (w_store w) \<rparr>;
             baseSupplyPerPeriod =
               sc_base_token_supply stageConfig / of_int (sc_num_periods stageConfig)
         in case period_loop clock eng stageIdx stageConfig baseSupplyPerPeriod 0
                   absolutePeriod w0 of
              (Inl e, w1) \<Rightarrow> (Inl e, w1)
            | (Inr absolutePeriod', w1) \<Rightarrow>
                (case awardStageSP (eng_config eng) stageIdx (w_store w1) of
                   (Inl e, st2) \<Rightarrow> (Inl e, w1\<lparr> w_store := st2 \<rparr>)
                 | (Inr u, st2) \<Rightarrow>
                     (let st3 = (if int stageIdx < int (length (stages (eng_config eng))) - 1
                                 then setPhase stage_active (setPhase stage_transition st2)
                                 else st2)
                      in stage_loop clock eng (stageIdx + 1) absolutePeriod'
                           (w1\<lparr> w_store := st3 \<rparr>))))
      else (Inr (), w))"
  by pat_completeness auto
termination
  by (relation "measure (\<lambda>(clock, eng, stageIdx, absolutePeriod, w).
        length (stages (eng_config eng)) - stageIdx)") auto

declare stage_loop.simps [simp del]

definition run ::
  "(nat \<Rightarrow> int) \<Rightarrow> ('id::linorder) TournamentEngine \<Rightarrow> 'id World
     \<Rightarrow> (error + 'id TournamentResult) \<times> 'id World" where
  "run clock eng w =
     (case stage_loop clock eng 0 0 (w\<lparr> w_store := setPhase stage_active (w_store w) \<rparr>) of
        (Inl e, w1) \<Rightarrow> (Inl e, w1)
      | (Inr u, w1) \<Rightarrow>
          (case awardOverallBonusSP (eng_config eng) (w_store w1) of
             (Inl e, st2) \<Rightarrow> (Inl e, w1\<lparr> w_store := st2 \<rparr>)
           | (Inr u, st2) \<Rightarrow>
               (let st3 = setPhase completed st2
                in (Inr (buildResult (eng_config eng) st3), w1\<lparr> w_store := st3 \<rparr>))))"

text \<open>Construction followed by a run, from a fresh module (\<open>_idCounter = 0\<close>).\<close>

definition tournament ::
  "(nat \<Rightarrow> int) \<Rightarrow> nat \<Rightarrow> nat \<Rightarrow> TournamentConfig \<Rightarrow> ('id::linorder) BotAgent list
     \<Rightarrow> (error + 'id TournamentResult) \<times> 'id World option" where
  "tournament clock idCounter clockReads config agents =
     (case new_TournamentEngine config agents of
        Inl e \<Rightarrow> (Inl e, None)
      | Inr (eng, st) \<Rightarrow>
          (case run clock eng \<lparr> w_store = st, w_idCounter = idCounter, w_clockReads = clockReads \<rparr> of
             (r, w) \<Rightarrow> (r, Some w)))"

section \<open>Configurations of the repository (core/configs.ts)\<close>

definition createTestTournamentConfig :: TournamentConfig where
  "createTestTournamentConfig =
     \<lparr> cfg_name = ''Test Tournament'', budget_per_bot = 5000,
       stages =
         [\<lparr> sc_base_token_supply = 90, sc_points_per_token = 1, sc_floor_price = 10,
            sc_num_periods = 3, sc_period_duration_seconds = 5, sc_max_bids_per_period = 5,
            sc_clearing_strategy = vickrey \<rparr>,
          \<lparr> sc_base_token_supply = 60, sc_points_per_token = 3 / 2, sc_floor_price = 21 / 2,
            sc_num_periods = 3, sc_period_duration_seconds = 5, sc_max_bids_per_period = 5,
            sc_clearing_strategy = vickrey \<rparr>,
          \<lparr> sc_base_token_supply = 30, sc_points_per_token = 5 / 2,
            sc_floor_price = 1103 / 100,
            sc_num_periods = 3, sc_period_duration_seconds = 5, sc_max_bids_per_period = 5,
            sc_clearing_strategy = vickrey \<rparr>],
       sp_awards = [3, 2, 1], overall_bonus_sp = 1 \<rparr>"

section \<open>Notions of the specification\<close>

text \<open>
  The bids the second-price mechanism admits: those at or above the floor.
\<close>

definition vickrey_admitted :: "num \<Rightarrow> 'id Bid list \<Rightarrow> 'id Bid list" where
  "vickrey_admitted floorPrice bids = filter (\<lambda>b. floorPrice \<le> bid_price_per_token b) bids"

text \<open>
  The second-highest admitted price, given the winning bid: the highest price among the
  other admitted bids (one occurrence of the winning bid taken out).
\<close>

definition second_highest_price :: "'id Bid \<Rightarrow> 'id Bid list \<Rightarrow> num" where
  "second_highest_price w admitted = Max (set (map bid_price_per_token (remove1 w admitted)))"

text \<open>The order the second-price comparator sorts by: price descending, then time ascending.\<close>

definition vickrey_key :: "'id Bid \<Rightarrow> rat \<times> int" where
  "vickrey_key b = (- bid_price_per_token b, bid_submitted_at b)"

section \<open>Inputs of the repository's tests (tests/vickrey.test.ts)\<close>

definition makeBid :: "string \<Rightarrow> num \<Rightarrow> num \<Rightarrow> int \<Rightarrow> string Bid" where
  "makeBid botId price supply msOffset =
     \<lparr> bid_id = ''bid_'' @ botId, bid_bot_id = botId, bid_stage = 0, bid_period = 0,
       bid_price_per_token = price, bid_total_cost = price * supply,
       bid_submitted_at = 1000 + msOffset \<rparr>"


text \<open>The test agents: both bid the floor plus a markup when they can afford the supply at that price.\<close>

definition ConstantBidBot :: "string \<Rightarrow> num \<Rightarrow> string BotAgent" where
  "ConstantBidBot botId markup =
     \<lparr> ag_bot_id = botId,
       decideBids = (\<lambda>obs.
         let price = obs_floor_price obs + markup
         in if obs_remaining_budget obs < price * obs_tokens_available obs then Inr []
            else Inr [price]),
       decideRescind = (\<lambda>obs r. Inr False) \<rparr>"

definition AggressiveRescindBot :: "string \<Rightarrow> num \<Rightarrow> string BotAgent" where
  "AggressiveRescindBot botId markup =
     \<lparr> ag_bot_id = botId,
       decideBids = (\<lambda>obs.
         let price = obs_floor_price obs + markup
         in if obs_remaining_budget obs < price * obs_tokens_available obs then Inr []
            else Inr [price]),
       decideRescind = (\<lambda>obs r. Inr True) \<rparr>"

definition test_bots :: "string BotAgent list" where
  "test_bots = [AggressiveRescindBot ''bot_rescinder'' 5, ConstantBidBot ''bot_B'' 1]"

definition test_engine :: "string TournamentEngine" where
  "test_engine = \<lparr> eng_config = createTestTournamentConfig, eng_bots = test_bots \<rparr>"

definition test_world :: "string World" where
  "test_world =
     \<lparr> w_store = new_TournamentStore createTestTournamentConfig (map ag_bot_id test_bots),
       w_idCounter = 0, w_clockReads = 0 \<rparr>"

text \<open>The context of the first period of the test tournament: 90 tokens over 3 periods, floor 10.\<close>

definition first_period :: PeriodContext where
  "first_period =
     \<lparr> ctx_stage = 0, ctx_period = 0, ctx_absolute_period = 0, ctx_tokens_available = 30,
       ctx_floor_price = 10, ctx_points_per_token = 1 \<rparr>"

text \<open>A clock that advances by one millisecond at each reading.\<close>

definition ticking_clock :: "nat \<Rightarrow> int" where
  "ticking_clock k = 1700000000000 + int k"

section \<open>Malformed configurations\<close>

text \<open>A stage of no periods, a stage of a negative number of periods, and negative floors.\<close>

definition malformed_config :: TournamentConfig where
  "malformed_config =
     \<lparr> cfg_name = ''Malformed'', budget_per_bot = 5000,
       stages =
         [\<lparr> sc_base_token_supply = 90, sc_points_per_token = 1, sc_floor_price = -10,
            sc_num_periods = 0, sc_period_duration_seconds = 5, sc_max_bids_per_period = 5,
            sc_clearing_strategy = vickrey \<rparr>,
          \<lparr> sc_base_token_supply = 60, sc_points_per_token = 1, sc_floor_price = -10,
            sc_num_periods = -3, sc_period_duration_seconds = 5, sc_max_bids_per_period = 5,
            sc_clearing_strategy = vickrey \<rparr>,
          \<lparr> sc_base_token_supply = 30, sc_points_per_token = 1, sc_floor_price = -10,
            sc_num_periods = 1, sc_period_duration_seconds = 5, sc_max_bids_per_period = 5,
            sc_clearing_strategy = vickrey \<rparr>],
       sp_awards = [3, 2, 1], overall_bonus_sp = 1 \<rparr>"

section \<open>Inputs on which the engine departs from its documentation\<close>

text \<open>
  A bid of the uniform-price tests (tests/uniformPrice.test.ts), five equal bids of one
  agent for a supply of \<open>3 \<times> 10\<^sup>-\<^sup>8\<close> tokens, an agent that offers the floor price five
  times, a configuration whose whole supply is \<open>3 \<times> 10\<^sup>-\<^sup>8\<close> tokens, a configuration whose
  terminal stage has a single period, and an agent that bids only when its observation
  shows a record whose rescinded flag is \<open>false\<close>.
\<close>

definition makeUniformBid :: "string \<Rightarrow> num \<Rightarrow> num \<Rightarrow> int \<Rightarrow> string Bid" where
  "makeUniformBid botId price totalCost msOffset =
     \<lparr> bid_id = ''bid_'' @ botId, bid_bot_id = botId, bid_stage = 0, bid_period = 0,
       bid_price_per_token = price, bid_total_cost = totalCost,
       bid_submitted_at = 1000 + msOffset \<rparr>"

definition five_tied_bids :: "string Bid list" where
  "five_tied_bids = map (\<lambda>k. makeUniformBid ''A'' 1 (3 / 100000000) k) [0, 1, 2, 3, 4]"

definition FiveBidsBot :: "string \<Rightarrow> string BotAgent" where
  "FiveBidsBot botId =
     \<lparr> ag_bot_id = botId,
       decideBids = (\<lambda>obs. Inr (replicate 5 (obs_floor_price obs))),
       decideRescind = (\<lambda>obs r. Inr False) \<rparr>"

definition tiny_supply_config :: TournamentConfig where
  "tiny_supply_config =
     \<lparr> cfg_name = ''Tiny supply'', budget_per_bot = 35 / 1000000000,
       stages =
         [\<lparr> sc_base_token_supply = 3 / 100000000, sc_points_per_token = 1, sc_floor_price = 1,
            sc_num_periods = 1, sc_period_duration_seconds = 5, sc_max_bids_per_period = 10,
            sc_clearing_strategy = uniform_price \<rparr>],
       sp_awards = [3, 2, 1], overall_bonus_sp = 1 \<rparr>"

definition short_terminal_config :: TournamentConfig where
  "short_terminal_config =
     \<lparr> cfg_name = ''Short terminal stage'', budget_per_bot = 5000,
       stages =
         [\<lparr> sc_base_token_supply = 60, sc_points_per_token = 1, sc_floor_price = 10,
            sc_num_periods = 2, sc_period_duration_seconds = 5, sc_max_bids_per_period = 5,
            sc_clearing_strategy = vickrey \<rparr>,
          \<lparr> sc_base_token_supply = 30, sc_points_per_token = 3 / 2, sc_floor_price = 21 / 2,
            sc_num_periods = 1, sc_period_duration_seconds = 5, sc_max_bids_per_period = 5,
            sc_clearing_strategy = vickrey \<rparr>],
       sp_awards = [3, 2, 1], overall_bonus_sp = 1 \<rparr>"

text \<open>The tournament horizon: the number of periods of all stages.\<close>

definition total_periods :: "TournamentConfig \<Rightarrow> int" where
  "total_periods config = foldl (\<lambda>sum s. sum + sc_num_periods s) 0 (stages config)"

definition second_period :: PeriodContext where
  "second_period =
     \<lparr> ctx_stage = 0, ctx_period = 1, ctx_absolute_period = 1, ctx_tokens_available = 30,
       ctx_floor_price = 10, ctx_points_per_token = 1 \<rparr>"

definition LeakWatcherBot :: "string \<Rightarrow> string BotAgent" where
  "LeakWatcherBot botId =
     \<lparr> ag_bot_id = botId,
       decideBids = (\<lambda>obs.
         if \<exists>r \<in> set (obs_history obs). pr_rescinded r = Some False
         then Inr [obs_floor_price obs + 10] else Inr []),
       decideRescind = (\<lambda>obs r. Inr False) \<rparr>"

section \<open>Notions of the specification: rankings and awards\<close>








section \<open>Verified properties\<close>

subsection \<open>A failed deduction changes nothing\<close>

text \<open>
  Claim C10. \<open>deductBudget\<close> is atomic on error: when the agent is unknown, or the amount
  is strictly greater than the agent's remaining budget, the call throws and the store
  it leaves behind is the store it was given, in every component.
\<close>

theorem deductBudget_atomic_on_error:
  assumes "getBot st botId = None
           \<or> (\<exists>b. getBot st botId = Some b \<and> bs_remaining_budget b < amount)"
  shows "\<exists>e. deductBudget botId amount st = (Inl e, st)"
  using assms by (auto simp: deductBudget_def)

text \<open>The store of the repository's store test: an amount of 99999 against 5000, and an unknown agent.\<close>

theorem deductBudget_atomic_on_error_witness:
  "deductBudget ''bot_A'' 99999
      (new_TournamentStore createTestTournamentConfig [''bot_A'', ''bot_B'', ''bot_C''])
     = (Inl CannotAfford,
        new_TournamentStore createTestTournamentConfig [''bot_A'', ''bot_B'', ''bot_C''])
   \<and> deductBudget ''nonexistent'' 1
      (new_TournamentStore createTestTournamentConfig [''bot_A'', ''bot_B'', ''bot_C''])
     = (Inl BotNotFound,
        new_TournamentStore createTestTournamentConfig [''bot_A'', ''bot_B'', ''bot_C''])"
proof -
  let ?st = "new_TournamentStore createTestTournamentConfig [''bot_A'', ''bot_B'', ''bot_C'']"
  have h1: "getBot ?st ''bot_A'' = None
           \<or> (\<exists>b. getBot ?st ''bot_A'' = Some b \<and> bs_remaining_budget b < 99999)"
    by (simp add: getBot_def new_TournamentStore_def createTestTournamentConfig_def Let_def)
  have h2: "getBot ?st ''nonexistent'' = None
           \<or> (\<exists>b. getBot ?st ''nonexistent'' = Some b \<and> bs_remaining_budget b < 1)"
    by (simp add: getBot_def new_TournamentStore_def createTestTournamentConfig_def Let_def)
  from deductBudget_atomic_on_error[OF h1] obtain e1 where
    e1: "deductBudget ''bot_A'' 99999 ?st = (Inl e1, ?st)" by blast
  from deductBudget_atomic_on_error[OF h2] obtain e2 where
    e2: "deductBudget ''nonexistent'' 1 ?st = (Inl e2, ?st)" by blast
  have "e1 = CannotAfford" using e1
    by (simp add: deductBudget_def getBot_def new_TournamentStore_def
        createTestTournamentConfig_def Let_def)
  moreover have "e2 = BotNotFound" using e2
    by (simp add: deductBudget_def getBot_def new_TournamentStore_def
        createTestTournamentConfig_def Let_def)
  ultimately show ?thesis using e1 e2 by simp
qed

subsection \<open>Sorting with a comparator that follows a key\<close>

lemma insort_cmp_insort_key:
  assumes "\<And>x y. (cmp x y \<le> 0) = (f x \<le> f y)"
  shows "insort_cmp cmp x ys = insort_key f x ys"
  by (induction ys) (simp_all add: assms)

lemma sort_cmp_sort_key:
  assumes "\<And>x y. (cmp x y \<le> 0) = (f x \<le> f y)"
  shows "sort_cmp cmp xs = sort_key f xs"
  unfolding sort_cmp_def sort_key_def
  using insort_cmp_insort_key[of cmp f, OF assms] by (induction xs) simp_all

lemma sorted_key_head:
  assumes "sort_key f xs = w # rest"
  shows "w \<in> set xs" "\<forall>b\<in>set xs. f w \<le> f b" "mset rest = mset xs - {#w#}"
proof -
  have s: "sorted (map f (w # rest))" using sorted_sort_key[of f xs] assms by simp
  have m: "mset (w # rest) = mset xs" using mset_sort[of f xs] assms by simp
  show "w \<in> set xs" using m by (metis list.set_intros(1) set_mset_mset)
  have "set (w # rest) = set xs" using m by (metis set_mset_mset)
  then show "\<forall>b\<in>set xs. f w \<le> f b" using s by auto
  show "mset rest = mset xs - {#w#}" using m by (metis add_mset_remove_trivial mset.simps(2))
qed

lemma sorted_key_second:
  assumes "sort_key f xs = w # s # rest'"
  shows "s \<in> set (remove1 w xs)" "\<forall>b\<in>set (remove1 w xs). f s \<le> f b"
proof -
  have srt: "sorted (map f (w # s # rest'))" using sorted_sort_key[of f xs] assms by simp
  have "mset (s # rest') = mset xs - {#w#}" using sorted_key_head(3)[OF assms] .
  then have "mset (s # rest') = mset (remove1 w xs)" by simp
  then have st: "set (s # rest') = set (remove1 w xs)" by (metis set_mset_mset)
  show "s \<in> set (remove1 w xs)" using st by auto
  show "\<forall>b\<in>set (remove1 w xs). f s \<le> f b" using st srt by auto
qed

subsection \<open>Second-price clearing\<close>

lemma vickrey_cmp_key: "(vickrey_cmp a b \<le> 0) = (vickrey_key a \<le> vickrey_key b)"
  by (auto simp: vickrey_cmp_def vickrey_key_def Let_def less_eq_prod_def)

lemma vickrey_sort: "sort_cmp vickrey_cmp xs = sort_key vickrey_key xs"
  by (rule sort_cmp_sort_key) (rule vickrey_cmp_key)

text \<open>
  Claim C4. For every bid list, supply and floor: with no admitted bid the mechanism
  allocates nothing and reports the floor as clearing price; otherwise it allocates the
  whole supply to one admitted bid \<open>w\<close> whose price is the highest, and whose submission
  time is the earliest among the bids of that price, at a price per token that is the
  floor when \<open>w\<close> is the only admitted bid and the second-highest admitted price when
  there are two or more.
\<close>

theorem vickrey_clear_second_price:
  "(vickrey_admitted floorPrice bids = [] \<longrightarrow>
      (\<exists>r. vickrey_clear bids supply floorPrice = Inr r
         \<and> cr_allocations r = [] \<and> cr_clearing_price r = floorPrice
         \<and> cr_total_tokens_allocated r = 0))
   \<and> (vickrey_admitted floorPrice bids \<noteq> [] \<longrightarrow>
      (\<exists>r w pay. vickrey_clear bids supply floorPrice = Inr r
         \<and> w \<in> set (vickrey_admitted floorPrice bids)
         \<and> (\<forall>b \<in> set (vickrey_admitted floorPrice bids).
               bid_price_per_token b \<le> bid_price_per_token w)
         \<and> (\<forall>b \<in> set (vickrey_admitted floorPrice bids).
               bid_price_per_token b = bid_price_per_token w
                 \<longrightarrow> bid_submitted_at w \<le> bid_submitted_at b)
         \<and> pay = (if length (vickrey_admitted floorPrice bids) = 1 then floorPrice
                   else second_highest_price w (vickrey_admitted floorPrice bids))
         \<and> cr_allocations r =
              [\<lparr> al_bot_id = bid_bot_id w, al_tokens_allocated = supply,
                 al_price_paid_per_token = pay, al_total_paid = pay * supply \<rparr>]
         \<and> cr_clearing_price r = pay
         \<and> cr_total_tokens_allocated r = supply))"
proof (intro conjI impI)
  assume "vickrey_admitted floorPrice bids = []"
  then show "\<exists>r. vickrey_clear bids supply floorPrice = Inr r
         \<and> cr_allocations r = [] \<and> cr_clearing_price r = floorPrice
         \<and> cr_total_tokens_allocated r = 0"
    by (simp add: vickrey_clear_def vickrey_admitted_def)
next
  let ?adm = "vickrey_admitted floorPrice bids"
  assume ne: "?adm \<noteq> []"
  have fl: "\<forall>b\<in>set ?adm. floorPrice \<le> bid_price_per_token b"
    by (simp add: vickrey_admitted_def)
  have "length (sort_key vickrey_key ?adm) = length ?adm" by simp
  with ne obtain w rest where wr: "sort_key vickrey_key ?adm = w # rest"
    by (cases "sort_key vickrey_key ?adm") auto
  note hd = sorted_key_head[OF wr]
  have win: "w \<in> set ?adm" using hd(1) .
  have high: "\<forall>b\<in>set ?adm. bid_price_per_token b \<le> bid_price_per_token w"
    using hd(2) by (auto simp: vickrey_key_def less_eq_prod_def)
  have fifo: "\<forall>b\<in>set ?adm. bid_price_per_token b = bid_price_per_token w
                 \<longrightarrow> bid_submitted_at w \<le> bid_submitted_at b"
    using hd(2) by (auto simp: vickrey_key_def less_eq_prod_def)
  have len: "length ?adm = Suc (length rest)"
    using wr by (metis length_Cons length_sort)
  show "\<exists>r w pay. vickrey_clear bids supply floorPrice = Inr r
         \<and> w \<in> set ?adm
         \<and> (\<forall>b \<in> set ?adm. bid_price_per_token b \<le> bid_price_per_token w)
         \<and> (\<forall>b \<in> set ?adm. bid_price_per_token b = bid_price_per_token w
                 \<longrightarrow> bid_submitted_at w \<le> bid_submitted_at b)
         \<and> pay = (if length ?adm = 1 then floorPrice else second_highest_price w ?adm)
         \<and> cr_allocations r =
              [\<lparr> al_bot_id = bid_bot_id w, al_tokens_allocated = supply,
                 al_price_paid_per_token = pay, al_total_paid = pay * supply \<rparr>]
         \<and> cr_clearing_price r = pay
         \<and> cr_total_tokens_allocated r = supply"
  proof (cases rest)
    case Nil
    with wr ne have "\<exists>r. vickrey_clear bids supply floorPrice = Inr r
         \<and> cr_allocations r =
              [\<lparr> al_bot_id = bid_bot_id w, al_tokens_allocated = supply,
                 al_price_paid_per_token = floorPrice, al_total_paid = floorPrice * supply \<rparr>]
         \<and> cr_clearing_price r = floorPrice
         \<and> cr_total_tokens_allocated r = supply"
      by (simp add: vickrey_clear_def vickrey_sort Let_def vickrey_admitted_def[symmetric])
    then obtain r where r: "vickrey_clear bids supply floorPrice = Inr r"
         "cr_allocations r =
              [\<lparr> al_bot_id = bid_bot_id w, al_tokens_allocated = supply,
                 al_price_paid_per_token = floorPrice, al_total_paid = floorPrice * supply \<rparr>]"
         "cr_clearing_price r = floorPrice" "cr_total_tokens_allocated r = supply"
      by blast
    have "length ?adm = 1" using len Nil by simp
    with r win high fifo show ?thesis
      by (intro exI[of _ r] exI[of _ w] exI[of _ floorPrice]) simp
  next
    case (Cons s rest')
    with wr have wr2: "sort_key vickrey_key ?adm = w # s # rest'" by simp
    note sec = sorted_key_second[OF wr2]
    have smax: "\<forall>b\<in>set (remove1 w ?adm). bid_price_per_token b \<le> bid_price_per_token s"
      using sec(2) by (auto simp: vickrey_key_def less_eq_prod_def)
    have "Max (set (map bid_price_per_token (remove1 w ?adm))) = bid_price_per_token s"
      using sec(1) smax by (intro Max_eqI) auto
    then have shp: "second_highest_price w ?adm = bid_price_per_token s"
      by (simp add: second_highest_price_def)
    have "s \<in> set ?adm" using sec(1) by (meson notin_set_remove1)
    then have sfl: "\<not> bid_price_per_token s < floorPrice" using fl by auto
    from wr2 ne sfl have "\<exists>r. vickrey_clear bids supply floorPrice = Inr r
         \<and> cr_allocations r =
              [\<lparr> al_bot_id = bid_bot_id w, al_tokens_allocated = supply,
                 al_price_paid_per_token = bid_price_per_token s,
                 al_total_paid = bid_price_per_token s * supply \<rparr>]
         \<and> cr_clearing_price r = bid_price_per_token s
         \<and> cr_total_tokens_allocated r = supply"
      by (simp add: vickrey_clear_def vickrey_sort Let_def vickrey_admitted_def[symmetric])
    then obtain r where r: "vickrey_clear bids supply floorPrice = Inr r"
         "cr_allocations r =
              [\<lparr> al_bot_id = bid_bot_id w, al_tokens_allocated = supply,
                 al_price_paid_per_token = bid_price_per_token s,
                 al_total_paid = bid_price_per_token s * supply \<rparr>]"
         "cr_clearing_price r = bid_price_per_token s" "cr_total_tokens_allocated r = supply"
      by blast
    have "length ?adm \<noteq> 1" using len Cons by simp
    with r win high fifo shp show ?thesis
      by (intro exI[of _ r] exI[of _ w] exI[of _ "bid_price_per_token s"]) simp
  qed
qed

text \<open>
  Two inputs of the repository's tests: tied highest bids, the later one first in the
  list (the earlier submission wins and pays the tied price), and bids below the floor.
\<close>

theorem vickrey_clear_second_price_witness:
  "(\<exists>r. vickrey_clear [makeBid ''B'' 15 100 10, makeBid ''A'' 15 100 0] 100 10 = Inr r
       \<and> cr_allocations r =
           [\<lparr> al_bot_id = ''A'', al_tokens_allocated = 100,
              al_price_paid_per_token = 15, al_total_paid = 1500 \<rparr>])
   \<and> (\<exists>r. vickrey_clear [makeBid ''A'' 8 100 0, makeBid ''B'' 9 100 0] 100 10 = Inr r
       \<and> cr_allocations r = [] \<and> cr_clearing_price r = 10)"
proof -
  let ?tied = "[makeBid ''B'' 15 100 10, makeBid ''A'' 15 100 0]"
  let ?low = "[makeBid ''A'' 8 100 0, makeBid ''B'' 9 100 0]"
  have adm: "vickrey_admitted 10 ?tied = ?tied"
    by (simp add: vickrey_admitted_def makeBid_def)
  then have ne: "vickrey_admitted 10 ?tied \<noteq> []" by simp
  from vickrey_clear_second_price[of 10 ?tied 100] ne adm obtain r w pay where
    r: "vickrey_clear ?tied 100 10 = Inr r" and w: "w \<in> set ?tied"
    and fifo: "\<forall>b \<in> set ?tied. bid_price_per_token b = bid_price_per_token w
                 \<longrightarrow> bid_submitted_at w \<le> bid_submitted_at b"
    and pay: "pay = second_highest_price w ?tied"
    and al: "cr_allocations r =
              [\<lparr> al_bot_id = bid_bot_id w, al_tokens_allocated = 100,
                 al_price_paid_per_token = pay, al_total_paid = pay * 100 \<rparr>]"
    by auto
  have wA: "w = makeBid ''A'' 15 100 0" using w fifo by (auto simp: makeBid_def)
  have "pay = 15" using pay wA by (simp add: second_highest_price_def makeBid_def)
  with al wA have "cr_allocations r =
           [\<lparr> al_bot_id = ''A'', al_tokens_allocated = 100,
              al_price_paid_per_token = 15, al_total_paid = 1500 \<rparr>]"
    by (simp add: makeBid_def)
  with r have first: "\<exists>r. vickrey_clear ?tied 100 10 = Inr r
       \<and> cr_allocations r =
           [\<lparr> al_bot_id = ''A'', al_tokens_allocated = 100,
              al_price_paid_per_token = 15, al_total_paid = 1500 \<rparr>]" by blast
  have "vickrey_admitted 10 ?low = []" by (simp add: vickrey_admitted_def makeBid_def)
  with vickrey_clear_second_price[of 10 ?low 100]
  have "\<exists>r. vickrey_clear ?low 100 10 = Inr r
       \<and> cr_allocations r = [] \<and> cr_clearing_price r = 10" by blast
  with first show ?thesis by blast
qed


subsection \<open>Construction\<close>

lemma register_agents_distinct:
  "distinct (map ag_bot_id registered) \<Longrightarrow>
   register_agents registered agents =
     (if distinct (map ag_bot_id (registered @ agents)) then Inr (registered @ agents)
      else Inl DuplicateBotId)"
proof (induction agents arbitrary: registered)
  case Nil
  then show ?case by simp
next
  case (Cons a agents)
  show ?case
  proof (cases "ag_bot_id a \<in> set (map ag_bot_id registered)")
    case True
    then show ?thesis by auto
  next
    case False
    with Cons.prems have d: "distinct (map ag_bot_id (registered @ [a]))" by simp
    show ?thesis using False Cons.IH[OF d] by simp
  qed
qed

text \<open>
  Claim C9, as amended. The constructor fails exactly when two agents share an
  identifier. It does not inspect the configuration: for every configuration, also one
  with a non-positive stage length or a negative floor, agents with distinct identifiers
  give an engine and a store in which each agent starts with the configured budget.
\<close>

theorem constructor_checks_identifiers_only:
  "new_TournamentEngine config agents =
     (if distinct (map ag_bot_id agents)
      then Inr (\<lparr> eng_config = config, eng_bots = agents \<rparr>,
                new_TournamentStore config (map ag_bot_id agents))
      else Inl DuplicateBotId)"
  by (simp add: new_TournamentEngine_def register_agents_distinct)

text \<open>
  The claim as stated fails: a configuration with a stage of no periods, a stage of a
  negative number of periods and negative floors is constructed, and its run completes.
\<close>

theorem malformed_config_is_accepted:
  "\<not> isl (new_TournamentEngine malformed_config test_bots)
   \<and> \<not> isl (fst (tournament ticking_clock 0 0 malformed_config test_bots))"
  by code_simp

subsection \<open>Rankings and stage points\<close>





lemma update_bot_absent:
  "a \<notin> set (map bs_bot_id bs) \<Longrightarrow> update_bot a f bs = bs"
  by (induction bs) auto




















subsection \<open>A rescind undoes the win\<close>

lemma find_update_bot_same:
  "(\<And>b. bs_bot_id (f b) = bs_bot_id b) \<Longrightarrow>
   find (\<lambda>b. bs_bot_id b = a) (update_bot a f bs) = map_option f (find (\<lambda>b. bs_bot_id b = a) bs)"
  by (induction bs) auto






lemma getBot_update:
  "(\<And>b. bs_bot_id (f b) = bs_bot_id b) \<Longrightarrow>
   getBot (st\<lparr> ts_bots := update_bot a f (ts_bots st) \<rparr>) a = map_option f (getBot st a)"
  by (simp add: getBot_def find_update_bot_same)

lemma find_bot_id: "find (\<lambda>b. bs_bot_id b = a) bs = Some b \<Longrightarrow> bs_bot_id b = a"
  by (induction bs) (auto split: if_splits)







lemma getBot_queues [simp]:
  "getBot (addPendingRescind r st) a = getBot st a"
  "getBot (addRescindSupply e st) a = getBot st a"
  by (simp_all add: getBot_def addPendingRescind_def addRescindSupply_def)









subsection \<open>Where the code departs from the claims\<close>

text \<open>
  Claim C1 (fails on the code). In the first period of the test tournament the winner
  rescinds; the record the period runner emits carries \<open>rescinded = false\<close>, not unset,
  and the observation built for the other agent at the next period shows that value in
  its history. Within a run, an agent that bids only when it observes such a value does
  bid, and ends with tokens.
\<close>

theorem rescinded_false_is_observable:
  "(case runPeriod ticking_clock test_engine first_period vickrey 5 True 0 test_world of
      (Inr r, w') \<Rightarrow>
         pr_rescinded r = Some False
         \<and> (case buildObservation createTestTournamentConfig (addPeriodResult r (w_store w'))
                    ''bot_B'' second_period of
               Inr obs \<Rightarrow> map pr_rescinded (obs_history obs) = [Some False]
             | Inl e \<Rightarrow> False)
    | (Inl e, w') \<Rightarrow> False)
   \<and> (case fst (tournament ticking_clock 0 0 createTestTournamentConfig
                   [AggressiveRescindBot ''bot_rescinder'' 5, LeakWatcherBot ''watcher'']) of
        Inr res \<Rightarrow>
          map (\<lambda>e. (lb_bot_id e, lb_tokens_per_stage e)) (res_final_leaderboard res)
            = [(''watcher'', [30, 40, 10]), (''bot_rescinder'', [0, 0, 100])]
      | Inl e \<Rightarrow> False)"
  by code_simp

text \<open>
  Claim C5 (fails on the code). Five bids tied at the clearing price for a residual of
  \<open>3 \<times> 10\<^sup>-\<^sup>8\<close> tokens: each of the first four gets its share \<open>0.6 \<times> 10\<^sup>-\<^sup>8\<close> rounded up to
  \<open>10\<^sup>-\<^sup>8\<close>, the last one's remainder is negative and is dropped, and the allocations sum
  to \<open>4 \<times> 10\<^sup>-\<^sup>8\<close>, more than the supply.
\<close>

theorem uniform_clear_overallocates:
  "map_sum id (\<lambda>r. (cr_clearing_price r, map al_tokens_allocated (cr_allocations r),
                      cr_total_tokens_allocated r))
     (uniform_clear five_tied_bids (3 / 100000000) 1)
   = Inr (1, [1 / 100000000, 1 / 100000000, 1 / 100000000, 1 / 100000000], 4 / 100000000)"
  by code_simp

text \<open>
  Claim C3 (fails on the code). The same rounding in a run: one agent with a budget of
  \<open>3.5 \<times> 10\<^sup>-\<^sup>8\<close> has five bids admitted at price 1 for \<open>3 \<times> 10\<^sup>-\<^sup>8\<close> tokens, is allocated
  four times \<open>10\<^sup>-\<^sup>8\<close> tokens, and the fourth deduction throws for insufficient funds.
\<close>

theorem settlement_can_exceed_budget:
  "fst (tournament ticking_clock 0 0 tiny_supply_config [FiveBidsBot ''A'']) = Inl CannotAfford"
  by code_simp

text \<open>
  Claim C7 (fails on the code). With a terminal stage of one period, the last period of
  the stage before it is not in the terminal stage and the rescind is offered there: a
  supply injection is created for absolute period 3 of a tournament of 3 periods, and
  the record of that period keeps the value \<open>false\<close> to the end.
\<close>

theorem injection_beyond_horizon:
  "total_periods short_terminal_config = 3
   \<and> (case tournament ticking_clock 0 0 short_terminal_config test_bots of
        (Inr res, Some w) \<Rightarrow>
          map se_target_absolute_period (ts_rescind_supply_queue (w_store w)) = [2, 3]
          \<and> map pr_rescinded (res_all_period_results res) = [Some True, Some False, None]
      | _ \<Rightarrow> False)"
  by code_simp

end
